theory Spec2Isabelle
  imports Complex_Main
begin

section \<open>JavaScript values\<close>

text \<open>
  The server (the second document of \<^verbatim>\<open>src/App.tsx\<close>) works on values that come out
  of \<^verbatim>\<open>JSON.parse\<close> and \<^verbatim>\<open>express.json()\<close>. The TypeScript types are erased at run
  time, so a field typed \<^verbatim>\<open>number\<close> can hold any value.

  A JavaScript number is a double: either one of the three non-finite values or a finite
  double. Every finite double is a rational number, so finite numbers are modelled as
  \<^typ>\<open>rat\<close>; the functions used on them here (\<^verbatim>\<open>Math.round\<close>, \<^verbatim>\<open>Math.min\<close>,
  \<^verbatim>\<open>Math.max\<close>) are defined by ECMAScript on the mathematical value of their arguments.
\<close>

datatype number = Finite rat | PosInfinity | NegInfinity | NaN

text \<open>
  An object is the list of its own properties in property order; \<^verbatim>\<open>undefined\<close> is a
  value of its own, as in the language. The keys of a real object are distinct; a lookup
  takes the first entry of a key, and no result below needs the keys to be distinct.
\<close>

datatype jsval =
    JUndefined
  | JNull
  | JBool bool
  | JNum number
  | JStr string
  | JArr "jsval list"
  | JObj "(string \<times> jsval) list"

text \<open>
  A thrown value: an instance of \<^verbatim>\<open>Error\<close> (which includes \<^verbatim>\<open>TypeError\<close> and
  \<^verbatim>\<open>SyntaxError\<close>) with its message, or any other value.
\<close>

datatype exn = Error string | Thrown jsval

definition nullish :: "jsval \<Rightarrow> bool" where
  "nullish v = (v = JUndefined \<or> v = JNull)"

text \<open>
  \<^verbatim>\<open>v.k\<close> for a value \<open>v\<close> that is neither \<^verbatim>\<open>null\<close> nor \<^verbatim>\<open>undefined\<close> and a
  property name \<open>k\<close> that is neither an index nor a name defined on a prototype (the server
  reads \<^verbatim>\<open>url\<close>, \<^verbatim>\<open>scores\<close>, the five category names, \<^verbatim>\<open>aiSlopDetected\<close>,
  \<^verbatim>\<open>aiSlopSignals\<close>, \<^verbatim>\<open>choices\<close>, \<^verbatim>\<open>message\<close> and \<^verbatim>\<open>content\<close>): an object
  gives its own property, everything else \<^verbatim>\<open>undefined\<close>.
\<close>

fun get_prop :: "jsval \<Rightarrow> string \<Rightarrow> jsval" where
  "get_prop (JObj kvs) k = (case map_of kvs k of Some v \<Rightarrow> v | None \<Rightarrow> JUndefined)"
| "get_prop _ k = JUndefined"

text \<open>\<^verbatim>\<open>v?.k\<close>\<close>

definition opt_prop :: "jsval \<Rightarrow> string \<Rightarrow> jsval" where
  "opt_prop v k = (if nullish v then JUndefined else get_prop v k)"

text \<open>
  A property definition \<^verbatim>\<open>k: v\<close> in an object literal after a spread \<^verbatim>\<open>...raw\<close>: a
  key that the spread has already created keeps its place and takes the new value, a new key
  goes to the end. (The keys written by the server are not array indices, which the language
  would order before the others.)
\<close>

fun set_prop :: "(string \<times> jsval) list \<Rightarrow> string \<Rightarrow> jsval \<Rightarrow> (string \<times> jsval) list" where
  "set_prop [] k v = [(k, v)]"
| "set_prop ((k', v') # kvs) k v =
     (if k' = k then (k, v) # kvs else (k', v') # set_prop kvs k v)"

text \<open>\<^verbatim>\<open>Boolean(v)\<close>, also the truthiness that \<^verbatim>\<open>!v\<close> tests.\<close>

fun Boolean :: "jsval \<Rightarrow> bool" where
  "Boolean JUndefined = False"
| "Boolean JNull = False"
| "Boolean (JBool b) = b"
| "Boolean (JNum (Finite q)) = (q \<noteq> 0)"
| "Boolean (JNum NaN) = False"
| "Boolean (JNum _) = True"
| "Boolean (JStr s) = (s \<noteq> [])"
| "Boolean (JArr _) = True"
| "Boolean (JObj _) = True"

section \<open>The result sanitizer\<close>

text \<open>\<^verbatim>\<open>Number.isFinite(value)\<close>: no coercion, false for everything that is not a number.\<close>

fun Number_isFinite :: "jsval \<Rightarrow> bool" where
  "Number_isFinite (JNum (Finite q)) = True"
| "Number_isFinite _ = False"

text \<open>\<^verbatim>\<open>Math.round\<close> on a finite number: the nearest integer, ties towards \<open>+\<infinity>\<close>.\<close>

definition Math_round :: "rat \<Rightarrow> rat" where
  "Math_round q = of_int \<lfloor>q + 1 / 2\<rfloor>"

text \<open>
  \<^verbatim>\<open>
  function clampScore(value: number): number {
    if (!Number.isFinite(value)) return 1;
    const rounded = Math.round(value);
    return Math.min(10, Math.max(1, rounded));
  }
  \<close>
\<close>

fun clampScore :: "jsval \<Rightarrow> number" where
  "clampScore (JNum (Finite q)) = Finite (min 10 (max 1 (Math_round q)))"
| "clampScore value = Finite 1"

text \<open>
  \<^verbatim>\<open>
  function sanitizeResult(raw: AnalysisResult): AnalysisResult {
    return {
      ...raw,
      scores: {
        palette: clampScore(raw.scores?.palette),
        typography: clampScore(raw.scores?.typography),
        layout: clampScore(raw.scores?.layout),
        originality: clampScore(raw.scores?.originality),
        overallVibe: clampScore(raw.scores?.overallVibe),
      },
      aiSlopDetected: Boolean(raw.aiSlopDetected),
      aiSlopSignals: Array.isArray(raw.aiSlopSignals) ? raw.aiSlopSignals.slice(0, 6) : [],
    };
  }
  \<close>
  \<open>raw\<close> is an object, given by its own properties.
\<close>

definition categories :: "string list" where
  "categories = [''palette'', ''typography'', ''layout'', ''originality'', ''overallVibe'']"

definition sanitize_scores :: "jsval \<Rightarrow> jsval" where
  "sanitize_scores scores =
     JObj [(''palette'', JNum (clampScore (opt_prop scores ''palette''))),
           (''typography'', JNum (clampScore (opt_prop scores ''typography''))),
           (''layout'', JNum (clampScore (opt_prop scores ''layout''))),
           (''originality'', JNum (clampScore (opt_prop scores ''originality''))),
           (''overallVibe'', JNum (clampScore (opt_prop scores ''overallVibe'')))]"

fun sanitize_signals :: "jsval \<Rightarrow> jsval" where
  "sanitize_signals (JArr xs) = JArr (take 6 xs)"
| "sanitize_signals _ = JArr []"

definition sanitizeResult :: "(string \<times> jsval) list \<Rightarrow> (string \<times> jsval) list" where
  "sanitizeResult raw =
     set_prop
       (set_prop
          (set_prop raw ''scores'' (sanitize_scores (get_prop (JObj raw) ''scores'')))
          ''aiSlopDetected'' (JBool (Boolean (get_prop (JObj raw) ''aiSlopDetected''))))
       ''aiSlopSignals'' (sanitize_signals (get_prop (JObj raw) ''aiSlopSignals''))"

text \<open>A list whose entries are all strings.\<close>

fun all_strings :: "jsval list \<Rightarrow> bool" where
  "all_strings [] = True"
| "all_strings (JStr s # xs) = all_strings xs"
| "all_strings (_ # xs) = False"

section \<open>Extracting the JSON object from the model's text\<close>

text \<open>
  \<^verbatim>\<open>content.match(/\{[\s\S]*\}/)\<close>. The class \<^verbatim>\<open>[\s\S]\<close> matches every character,
  so the match depends on the two braces only and not on the width of a character.
  \<open>greedy_to_brace\<close> is the part \<^verbatim>\<open>[\s\S]*\}\<close> of the pattern, run on what follows an
  opening brace: the star first takes the next character and goes on, and only when that
  fails does it stop and ask for the closing brace here. It gives the text matched, the
  closing brace included.
\<close>

fun greedy_to_brace :: "string \<Rightarrow> string option" where
  "greedy_to_brace [] = None"
| "greedy_to_brace (c # cs) =
     (case greedy_to_brace cs of
        Some m \<Rightarrow> Some (c # m)
      | None \<Rightarrow> if c = CHR ''}'' then Some [c] else None)"

text \<open>
  The whole pattern, tried at each position from the left; \<open>None\<close> is the \<^verbatim>\<open>null\<close> of
  a failed match, \<open>Some m\<close> gives \<^verbatim>\<open>match[0]\<close>.
\<close>

fun regex_match :: "string \<Rightarrow> string option" where
  "regex_match [] = None"
| "regex_match (c # cs) =
     (if c = CHR ''{''
      then (case greedy_to_brace cs of
              Some m \<Rightarrow> Some (c # m)
            | None \<Rightarrow> regex_match cs)
      else regex_match cs)"

text \<open>
  \<^verbatim>\<open>
  function safeParseJson(content: string): AnalysisResult {
    const match = content.match(/\{[\s\S]*\}/);
    if (!match) throw new Error('Model did not return JSON');
    const parsed = JSON.parse(match[0]) as AnalysisResult;
    return sanitizeResult(parsed);
  }
  \<close>
  \<^verbatim>\<open>JSON.parse\<close> is a parameter: it gives the \<^verbatim>\<open>SyntaxError\<close> it throws, or the value
  parsed. The text it is given starts with an opening brace, so the value parsed is an
  object, given by its properties. The caller passes whatever the model's response holds as
  \<^verbatim>\<open>content\<close>; a value that is not a string has no \<^verbatim>\<open>match\<close> method, and the call
  throws a \<^verbatim>\<open>TypeError\<close> (the message is the engine's; V8's is written here).
\<close>

fun safeParseJson ::
  "(string \<Rightarrow> exn + (string \<times> jsval) list) \<Rightarrow> jsval \<Rightarrow> exn + (string \<times> jsval) list" where
  "safeParseJson JSON_parse (JStr content) =
     (case regex_match content of
        None \<Rightarrow> Inl (Error ''Model did not return JSON'')
      | Some m \<Rightarrow>
          (case JSON_parse m of
             Inl e \<Rightarrow> Inl e
           | Inr parsed \<Rightarrow> Inr (sanitizeResult parsed)))"
| "safeParseJson JSON_parse _ = Inl (Error ''content.match is not a function'')"

section \<open>The world outside the server\<close>

text \<open>
  Every call that leaves the process is an event. A run of the server is the list of the
  events it has caused so far; a call that fails is still a call made.
\<close>

datatype event =
    Launch
  | NewPage
  | Goto string
  | WaitForTimeout nat
  | EvalScrollHeight
  | ScrollTo int
  | Screenshot
  | PageClose
  | BrowserClose
  | Fetch string string
  | ResponseText
  | ResponseJson

text \<open>
  What the outside does is a parameter. Whether a call fails, and what it returns, may
  depend on all the calls made before it.
  \<^item> \<open>JSON_parse\<close>: \<^verbatim>\<open>JSON.parse\<close> on a text that starts with an opening brace;
  \<^item> \<open>URL_href\<close>: \<^verbatim>\<open>new URL(s).toString()\<close>, \<open>None\<close> when the constructor throws;
  \<^item> \<open>base64\<close>: \<^verbatim>\<open>buffer.toString('base64')\<close>;
  \<^item> \<open>fails\<close>: the value with which the awaited call rejects, if it does;
  \<^item> \<open>scrollHeight\<close>: \<^verbatim>\<open>document.body.scrollHeight\<close>, an integer by the DOM's definition;
  \<^item> \<open>png\<close>: the bytes of the screenshot;
  \<^item> \<open>response_status\<close>, \<open>response_text\<close>, \<open>response_json\<close>: the critique backend's
    response, its body read as text and as JSON.
\<close>

record world =
  JSON_parse :: "string \<Rightarrow> exn + (string \<times> jsval) list"
  URL_href :: "string \<Rightarrow> string option"
  base64 :: "string \<Rightarrow> string"
  fails :: "event list \<Rightarrow> event \<Rightarrow> exn option"
  scrollHeight :: "event list \<Rightarrow> int"
  png :: "event list \<Rightarrow> string"
  response_status :: "event list \<Rightarrow> nat"
  response_text :: "event list \<Rightarrow> string"
  response_json :: "event list \<Rightarrow> jsval"

text \<open>
  A computation of the server takes the events so far and gives the value it returns or the
  value it throws, and the events so far afterwards.
\<close>

type_synonym 'a io = "event list \<Rightarrow> (exn + 'a) \<times> event list"

definition return_io :: "'a \<Rightarrow> 'a io" where
  "return_io a t = (Inr a, t)"

definition throw_io :: "exn \<Rightarrow> 'a io" where
  "throw_io e t = (Inl e, t)"

text \<open>One statement after another: a throw skips what follows.\<close>

definition bind_io :: "'a io \<Rightarrow> ('a \<Rightarrow> 'b io) \<Rightarrow> 'b io" where
  "bind_io m f t = (case m t of (Inl e, t1) \<Rightarrow> (Inl e, t1) | (Inr a, t1) \<Rightarrow> f a t1)"

text \<open>
  \<^verbatim>\<open>try { m } finally { c }\<close>: \<open>c\<close> runs whatever \<open>m\<close> did; when \<open>c\<close> throws, that is
  what the statement throws, otherwise the statement ends as \<open>m\<close> did.
\<close>

definition finally_io :: "'a io \<Rightarrow> unit io \<Rightarrow> 'a io" where
  "finally_io m c t =
     (case m t of (r, t1) \<Rightarrow>
        (case c t1 of (Inl e, t2) \<Rightarrow> (Inl e, t2) | (Inr u, t2) \<Rightarrow> (r, t2)))"

text \<open>An awaited call whose value is not used, and one that returns a value.\<close>

definition await :: "world \<Rightarrow> event \<Rightarrow> unit io" where
  "await w e t = (case fails w t e of Some x \<Rightarrow> (Inl x, t @ [e]) | None \<Rightarrow> (Inr (), t @ [e]))"

definition await_value :: "world \<Rightarrow> event \<Rightarrow> (event list \<Rightarrow> 'a) \<Rightarrow> 'a io" where
  "await_value w e val t =
     (case fails w t e of Some x \<Rightarrow> (Inl x, t @ [e]) | None \<Rightarrow> (Inr (val t), t @ [e]))"

section \<open>Capturing the screenshot\<close>

text \<open>
  \<^verbatim>\<open>
  const step = 800;
  for (let y = 0; y < scrollHeight; y += step) {
    await page.evaluate(`window.scrollTo(0, ${y})`);
    await page.waitForTimeout(200);
  }
  \<close>
\<close>

function scroll_loop :: "world \<Rightarrow> int \<Rightarrow> int \<Rightarrow> unit io" where
  "scroll_loop w y h t =
     (if y < h
      then (case await w (ScrollTo y) t of
              (Inl e, t1) \<Rightarrow> (Inl e, t1)
            | (Inr u, t1) \<Rightarrow>
                (case await w (WaitForTimeout 200) t1 of
                   (Inl e, t2) \<Rightarrow> (Inl e, t2)
                 | (Inr u, t2) \<Rightarrow> scroll_loop w (y + 800) h t2))
      else (Inr (), t))"
  by pat_completeness auto
termination
  by (relation "measure (\<lambda>(w, y, h, t). nat (h - y))") auto

text \<open>
  \<^verbatim>\<open>
  async function captureScreenshot(targetUrl: string): Promise<Buffer> {
    const browser = await chromium.launch({ headless: true });
    const page = await browser.newPage({ ... });
    try {
      await page.goto(targetUrl, { waitUntil: 'networkidle', timeout: 30_000 });
      await page.waitForTimeout(600);
      const scrollHeight = await page.evaluate('document.body.scrollHeight') as number;
      ... the loop ...
      await page.evaluate('window.scrollTo(0, 0)');
      await page.waitForTimeout(800);
      return await page.screenshot({ type: 'png', fullPage: true });
    } finally {
      await page.close();
      await browser.close();
    }
  }
  \<close>
\<close>

definition capture_body :: "world \<Rightarrow> string \<Rightarrow> string io" where
  "capture_body w targetUrl =
     bind_io (await w (Goto targetUrl)) (\<lambda>_.
     bind_io (await w (WaitForTimeout 600)) (\<lambda>_.
     bind_io (await_value w EvalScrollHeight (scrollHeight w)) (\<lambda>h.
     bind_io (scroll_loop w 0 h) (\<lambda>_.
     bind_io (await w (ScrollTo 0)) (\<lambda>_.
     bind_io (await w (WaitForTimeout 800)) (\<lambda>_.
     await_value w Screenshot (png w)))))))"

definition capture_cleanup :: "world \<Rightarrow> unit io" where
  "capture_cleanup w = bind_io (await w PageClose) (\<lambda>_. await w BrowserClose)"

definition captureScreenshot :: "world \<Rightarrow> string \<Rightarrow> string io" where
  "captureScreenshot w targetUrl =
     bind_io (await w Launch) (\<lambda>_.
     bind_io (await w NewPage) (\<lambda>_.
     finally_io (capture_body w targetUrl) (capture_cleanup w)))"

section \<open>The analyze endpoint\<close>

record response =
  status :: nat
  json :: jsval

text \<open>\<^verbatim>\<open>res.status(code).json({ error: message })\<close>\<close>

definition error_response :: "nat \<Rightarrow> string \<Rightarrow> response" where
  "error_response code message = \<lparr>status = code, json = JObj [(''error'', JStr message)]\<rparr>"

text \<open>A number in a template literal; the numbers here are natural numbers.\<close>

fun string_of_nat :: "nat \<Rightarrow> string" where
  "string_of_nat n =
     (if n < 10 then [''0123456789'' ! n]
      else string_of_nat (n div 10) @ [''0123456789'' ! (n mod 10)])"

text \<open>\<^verbatim>\<open>typeof v === 'string'\<close>\<close>

fun is_string :: "jsval \<Rightarrow> bool" where
  "is_string (JStr s) = True"
| "is_string _ = False"

text \<open>\<^verbatim>\<open>v[0]\<close> for a value that is neither \<^verbatim>\<open>null\<close> nor \<^verbatim>\<open>undefined\<close>.\<close>

fun get_index0 :: "jsval \<Rightarrow> jsval" where
  "get_index0 (JArr xs) = (case xs of [] \<Rightarrow> JUndefined | x # _ \<Rightarrow> x)"
| "get_index0 (JStr s) = (case s of [] \<Rightarrow> JUndefined | c # _ \<Rightarrow> JStr [c])"
| "get_index0 (JObj kvs) = get_prop (JObj kvs) ''0''"
| "get_index0 _ = JUndefined"

text \<open>
  \<^verbatim>\<open>const text = data.choices?.[0]?.message?.content ?? '';\<close>
  Reading \<^verbatim>\<open>choices\<close> of \<^verbatim>\<open>null\<close> throws a \<^verbatim>\<open>TypeError\<close> (V8's message).
\<close>

definition model_text :: "jsval \<Rightarrow> exn + jsval" where
  "model_text data =
     (if nullish data then Inl (Error ''Cannot read properties of null (reading 'choices')'')
      else
        let choices = get_prop data ''choices'';
            first = (if nullish choices then JUndefined else get_index0 choices);
            content = opt_prop (opt_prop first ''message'') ''content''
        in Inr (if nullish content then JStr [] else content))"

text \<open>\<^verbatim>\<open>response.ok\<close>\<close>

definition response_ok :: "nat \<Rightarrow> bool" where
  "response_ok st = (200 \<le> st \<and> st \<le> 299)"

text \<open>
  The body of the handler's \<^verbatim>\<open>try\<close>: capture, call the critique backend, read the
  model's text, parse and sanitize, build the response.
\<close>

definition lift_io :: "exn + 'a \<Rightarrow> 'a io" where
  "lift_io r t = (r, t)"

definition analyze_try :: "world \<Rightarrow> string \<Rightarrow> response io" where
  "analyze_try w href =
     bind_io (captureScreenshot w href) (\<lambda>screenshot.
     bind_io (await_value w (Fetch href (base64 w screenshot)) (response_status w)) (\<lambda>st.
     bind_io (if \<not> response_ok st
              then bind_io (await_value w ResponseText (response_text w)) (\<lambda>err.
                     throw_io (Error (''OpenRouter error '' @ string_of_nat st @ '': '' @ err)))
              else return_io ()) (\<lambda>_.
     bind_io (await_value w ResponseJson (response_json w)) (\<lambda>data.
     bind_io (lift_io (model_text data)) (\<lambda>text.
     bind_io (lift_io (safeParseJson (JSON_parse w) text)) (\<lambda>analysis.
     return_io \<lparr>status = 200,
                json = JObj [(''url'', JStr href),
                             (''screenshotBase64'',
                                JStr (''data:image/png;base64,'' @ base64 w screenshot)),
                             (''analysis'', JObj analysis)]\<rparr>))))))"

text \<open>
  \<^verbatim>\<open>const message = error instanceof Error ? error.message : 'Unexpected error';\<close>
\<close>

fun catch_message :: "exn \<Rightarrow> string" where
  "catch_message (Error message) = message"
| "catch_message (Thrown v) = ''Unexpected error''"

text \<open>\<^verbatim>\<open>url.startsWith('http') ? url : `https://${url}`\<close>\<close>

definition with_scheme :: "string \<Rightarrow> string" where
  "with_scheme url = (if take 4 url = ''http'' then url else ''https://'' @ url)"

text \<open>\<^verbatim>\<open>!OPENROUTER_API_KEY\<close>, for \<^verbatim>\<open>process.env.OPENROUTER_API_KEY\<close>: unset or empty.\<close>

fun key_missing :: "string option \<Rightarrow> bool" where
  "key_missing None = True"
| "key_missing (Some k) = (k = [])"

text \<open>
  \<^verbatim>\<open>
  app.post('/api/analyze', async (req, res) => {
    const { url } = req.body as { url?: string };
    if (!url || typeof url !== 'string') {
      return res.status(400).json({ error: 'url is required' });
    }
    let normalized: URL;
    try {
      normalized = new URL(url.startsWith('http') ? url : `https://${url}`);
    } catch {
      return res.status(400).json({ error: 'Invalid URL' });
    }
    if (!OPENROUTER_API_KEY) {
      return res.status(500).json({ error: 'OPENROUTER_API_KEY is missing in environment' });
    }
    try {
      ...
    } catch (error) {
      const message = error instanceof Error ? error.message : 'Unexpected error';
      return res.status(500).json({ error: message });
    }
  });
  \<close>
  The handler gives the response it sends and the events it has caused. Destructuring a
  body that is \<^verbatim>\<open>null\<close> or \<^verbatim>\<open>undefined\<close> throws outside every \<^verbatim>\<open>try\<close>: the handler
  then sends nothing.
\<close>

text \<open>The characters of a value known to be a string.\<close>

fun string_value :: "jsval \<Rightarrow> string" where
  "string_value (JStr s) = s"
| "string_value _ = []"

definition analyze :: "string option \<Rightarrow> world \<Rightarrow> jsval \<Rightarrow> (exn + response) \<times> event list" where
  "analyze OPENROUTER_API_KEY w req_body =
     (if nullish req_body
      then (Inl (Error ''Cannot destructure property 'url' of 'req.body' as it is undefined.''), [])
      else
        let url = get_prop req_body ''url'' in
        if \<not> Boolean url \<or> \<not> is_string url
        then (Inr (error_response 400 ''url is required''), [])
        else
          (case URL_href w (with_scheme (string_value url)) of
             None \<Rightarrow> (Inr (error_response 400 ''Invalid URL''), [])
           | Some href \<Rightarrow>
               if key_missing OPENROUTER_API_KEY
               then (Inr (error_response 500
                       ''OPENROUTER_API_KEY is missing in environment''), [])
               else
                 (case analyze_try w href [] of
                    (Inr r, t) \<Rightarrow> (Inr r, t)
                  | (Inl error, t) \<Rightarrow> (Inr (error_response 500 (catch_message error)), t))))"

section \<open>Example worlds\<close>

text \<open>
  Concrete worlds on which the theorems below are run. \<open>example_parse\<close> and
  \<open>example_URL\<close> agree with \<^verbatim>\<open>JSON.parse\<close> and with the URL constructor on the texts
  they are given here: \<^verbatim>\<open>{}\<close> parses to the empty object and \<^verbatim>\<open>{nope}\<close> is a syntax
  error; \<^verbatim>\<open>https://example.com\<close> and \<^verbatim>\<open>http://x.com\<close> serialize with a final slash and
  \<^verbatim>\<open>https://not a url\<close> is rejected. The screenshot is the three bytes \<^verbatim>\<open>PNG\<close>, whose
  base64 is \<^verbatim>\<open>UE5H\<close>.
\<close>

definition example_parse :: "string \<Rightarrow> exn + (string \<times> jsval) list" where
  "example_parse s = (if s = ''{}'' then Inr [] else Inl (Error ''Unexpected token n in JSON''))"

definition example_URL :: "string \<Rightarrow> string option" where
  "example_URL s =
     (if s = ''https://example.com'' then Some ''https://example.com/''
      else if s = ''http://x.com'' then Some ''http://x.com/''
      else None)"

definition example_world ::
  "(event list \<Rightarrow> event \<Rightarrow> exn option) \<Rightarrow> int \<Rightarrow> nat \<Rightarrow> string \<Rightarrow> jsval \<Rightarrow> world" where
  "example_world f h st txt data =
     \<lparr>JSON_parse = example_parse, URL_href = example_URL, base64 = (\<lambda>s. ''UE5H''),
      fails = f, scrollHeight = (\<lambda>t. h), png = (\<lambda>t. ''PNG''),
      response_status = (\<lambda>t. st), response_text = (\<lambda>t. txt),
      response_json = (\<lambda>t. data)\<rparr>"

text \<open>The world in which no call fails, and the one in which only the given call fails.\<close>

definition no_failure :: "event list \<Rightarrow> event \<Rightarrow> exn option" where
  "no_failure t e = None"

definition failure_at :: "event \<Rightarrow> exn \<Rightarrow> event list \<Rightarrow> event \<Rightarrow> exn option" where
  "failure_at e0 x t e = (if e = e0 then Some x else None)"

text \<open>The events of a capture in which nothing fails, on a page 1000 pixels high.\<close>

definition example_capture :: "event list" where
  "example_capture =
     [Launch, NewPage, Goto ''https://example.com/'', WaitForTimeout 600, EvalScrollHeight,
      ScrollTo 0, WaitForTimeout 200, ScrollTo 800, WaitForTimeout 200,
      ScrollTo 0, WaitForTimeout 800, Screenshot, PageClose, BrowserClose]"

text \<open>A request body, a credential, and a backend response holding the model's text.\<close>

definition example_request :: "string \<Rightarrow> jsval" where
  "example_request u = JObj [(''url'', JStr u)]"

definition example_key :: "string option" where
  "example_key = Some ''sk-or-v1-0123''"

definition example_completion :: "string \<Rightarrow> jsval" where
  "example_completion content =
     JObj [(''id'', JStr ''gen-1''),
           (''choices'', JArr [JObj [(''message'',
              JObj [(''role'', JStr ''assistant''), (''content'', JStr content)])]])]"

section \<open>Properties of the sanitizer\<close>

lemma map_of_set_prop:
  "map_of (set_prop kvs k v) k' = (if k' = k then Some v else map_of kvs k')"
  by (induction kvs) auto

lemma get_prop_set_prop:
  "get_prop (JObj (set_prop kvs k v)) k' = (if k' = k then v else get_prop (JObj kvs) k')"
  by (simp add: map_of_set_prop)

lemma set_prop_same:
  "map_of kvs k = Some v \<Longrightarrow> set_prop kvs k v = kvs"
  by (induction kvs) (auto split: if_splits)

lemma clampScore_range:
  "\<exists>n::int. 1 \<le> n \<and> n \<le> 10 \<and> clampScore v = Finite (of_int n)"
proof (cases "Number_isFinite v")
  case False
  then have "clampScore v = Finite (of_int 1)"
    by (induction v rule: clampScore.induct) simp_all
  then show ?thesis by (intro exI [of _ 1]) simp
next
  case True
  then obtain q where v: "v = JNum (Finite q)"
    by (induction v rule: Number_isFinite.induct) simp_all
  let ?n = "min 10 (max 1 \<lfloor>q + 1 / 2\<rfloor>)"
  have "clampScore v = Finite (of_int ?n)"
    by (simp add: v Math_round_def min_def max_def)
  moreover have "1 \<le> ?n" "?n \<le> 10" by simp_all
  ultimately show ?thesis by blast
qed

lemma clampScore_not_finite:
  "\<not> Number_isFinite v \<Longrightarrow> clampScore v = Finite 1"
  by (induction v rule: clampScore.induct) simp_all

lemma clampScore_idem: "clampScore (JNum (clampScore v)) = clampScore v"
proof -
  obtain n :: int where n: "1 \<le> n" "n \<le> 10" "clampScore v = Finite (of_int n)"
    using clampScore_range by blast
  have "\<lfloor>(of_int n :: rat) + 1 / 2\<rfloor> = n" by linarith
  with n show ?thesis by (simp add: Math_round_def)
qed

lemma sanitize_scores_idem: "sanitize_scores (sanitize_scores s) = sanitize_scores s"
  by (simp add: sanitize_scores_def opt_prop_def nullish_def clampScore_idem)

lemma sanitize_signals_idem: "sanitize_signals (sanitize_signals x) = sanitize_signals x"
  by (induction x rule: sanitize_signals.induct) simp_all

lemma sanitizeResult_scores:
  "get_prop (JObj (sanitizeResult raw)) ''scores'' = sanitize_scores (get_prop (JObj raw) ''scores'')"
  unfolding sanitizeResult_def get_prop_set_prop by simp

lemma sanitizeResult_detected:
  "get_prop (JObj (sanitizeResult raw)) ''aiSlopDetected'' =
     JBool (Boolean (get_prop (JObj raw) ''aiSlopDetected''))"
  unfolding sanitizeResult_def get_prop_set_prop by simp

lemma sanitizeResult_signals:
  "get_prop (JObj (sanitizeResult raw)) ''aiSlopSignals'' =
     sanitize_signals (get_prop (JObj raw) ''aiSlopSignals'')"
  unfolding sanitizeResult_def get_prop_set_prop by simp

lemma get_prop_map_of:
  "get_prop (JObj kvs) k = v \<Longrightarrow> v \<noteq> JUndefined \<Longrightarrow> map_of kvs k = Some v"
  by (simp split: option.splits)

lemma sanitize_scores_category:
  "c \<in> set categories \<Longrightarrow>
     get_prop (sanitize_scores s) c = JNum (clampScore (opt_prop s c))"
  by (auto simp: categories_def sanitize_scores_def)

text \<open>
  C1. \<^verbatim>\<open>clampScore\<close> returns an integer between 1 and 10 for every value; a value that is
  not a finite number (\<^verbatim>\<open>undefined\<close>, \<^verbatim>\<open>NaN\<close>, an infinity, a string, ...) gives 1; a
  finite number is rounded to the nearest integer (ties upwards) and then clamped, so a
  number between 0.5 and 10.5 gives an integer at most one half away from it;
  \<^verbatim>\<open>clampScore(NaN) = 1\<close>, \<^verbatim>\<open>clampScore(0) = 1\<close>, \<^verbatim>\<open>clampScore(11) = 10\<close>,
  \<^verbatim>\<open>clampScore(7.6) = 8\<close>; and each of the five categories of the sanitized
  \<^verbatim>\<open>scores\<close> is \<^verbatim>\<open>clampScore\<close> of that category of the input's \<^verbatim>\<open>scores\<close>.
\<close>

theorem C1_clampScore:
  "(\<exists>n::int. 1 \<le> n \<and> n \<le> 10 \<and> clampScore v = Finite (of_int n))
   \<and> (\<not> Number_isFinite v \<longrightarrow> clampScore v = Finite 1)
   \<and> clampScore (JNum (Finite q)) = Finite (of_int (min 10 (max 1 \<lfloor>q + 1 / 2\<rfloor>)))
   \<and> (1 / 2 \<le> q \<and> q < 21 / 2 \<longrightarrow>
        (\<exists>n::int. clampScore (JNum (Finite q)) = Finite (of_int n)
             \<and> q - 1 / 2 < of_int n \<and> of_int n \<le> q + 1 / 2))
   \<and> clampScore JUndefined = Finite 1
   \<and> clampScore (JNum NaN) = Finite 1
   \<and> clampScore (JNum (Finite 0)) = Finite 1
   \<and> clampScore (JNum (Finite 11)) = Finite 10
   \<and> clampScore (JNum (Finite (76 / 10))) = Finite 8
   \<and> (c \<in> set categories \<longrightarrow>
        get_prop (get_prop (JObj (sanitizeResult raw)) ''scores'') c =
          JNum (clampScore (opt_prop (get_prop (JObj raw) ''scores'') c)))"
proof -
  have round: "clampScore (JNum (Finite q)) = Finite (of_int (min 10 (max 1 \<lfloor>q + 1 / 2\<rfloor>)))"
    by (simp add: Math_round_def min_def max_def)
  have near: "\<exists>n::int. clampScore (JNum (Finite q)) = Finite (of_int n)
             \<and> q - 1 / 2 < of_int n \<and> of_int n \<le> q + 1 / 2"
    if q: "1 / 2 \<le> q" "q < 21 / 2"
  proof -
    let ?n = "\<lfloor>q + 1 / 2\<rfloor>"
    have lo: "1 \<le> ?n" using q by (simp add: le_floor_iff)
    have "?n < 11" using q by (simp add: floor_less_iff)
    then have hi: "?n \<le> 10" by simp
    from lo hi have "min 10 (max 1 ?n) = ?n" by linarith
    then have "clampScore (JNum (Finite q)) = Finite (of_int ?n)"
      by (simp only: round)
    moreover have "q - 1 / 2 < of_int ?n" by linarith
    moreover have "of_int ?n \<le> q + 1 / 2" by linarith
    ultimately show ?thesis by blast
  qed
  have ex: "clampScore (JNum (Finite 0)) = Finite 1"
    "clampScore (JNum (Finite 11)) = Finite 10"
    "clampScore (JNum (Finite (76 / 10))) = Finite 8"
    by (simp_all add: Math_round_def floor_unique)
  have ex0: "clampScore JUndefined = Finite 1" "clampScore (JNum NaN) = Finite 1"
    by simp_all
  have cat: "get_prop (get_prop (JObj (sanitizeResult raw)) ''scores'') c =
      JNum (clampScore (opt_prop (get_prop (JObj raw) ''scores'') c))"
    if "c \<in> set categories"
    unfolding sanitizeResult_scores using that by (rule sanitize_scores_category)
  show ?thesis
    using clampScore_range [of v] clampScore_not_finite [of v] round near ex ex0 cat
    by blast
qed

theorem C1_clampScore_witness:
  "\<not> Number_isFinite (JStr ''bad'') \<and> clampScore (JStr ''bad'') = Finite 1
   \<and> (1 / 2 \<le> (38 / 5 :: rat) \<and> (38 / 5 :: rat) < 21 / 2)
   \<and> clampScore (JNum (Finite (38 / 5))) = Finite 8
   \<and> ''palette'' \<in> set categories
   \<and> get_prop (get_prop (JObj (sanitizeResult
        [(''verdict'', JStr ''meh''),
         (''scores'', JObj [(''palette'', JNum (Finite 99)), (''typography'', JStr ''bad'')])]))
        ''scores'') ''palette'' = JNum (Finite 10)"
  using C1_clampScore [of "JStr ''bad''" "38 / 5" "''palette''"
      "[(''verdict'', JStr ''meh''),
        (''scores'', JObj [(''palette'', JNum (Finite 99)), (''typography'', JStr ''bad'')])]"]
  by (simp add: categories_def opt_prop_def nullish_def Math_round_def floor_unique)

text \<open>
  C2, as the code has it. The sanitized \<^verbatim>\<open>aiSlopSignals\<close> is the list of the first six
  entries of the input's list (all of them when there are fewer), unchanged and in their
  order, so it has at most six entries, and they are strings when the input's entries are;
  when the input's field is absent or not a list, it is the empty list.
\<close>

theorem C2_aiSlopSignals:
  "(get_prop (JObj raw) ''aiSlopSignals'' = JArr xs \<longrightarrow>
      get_prop (JObj (sanitizeResult raw)) ''aiSlopSignals'' = JArr (take 6 xs)
      \<and> length (take 6 xs) \<le> 6
      \<and> (all_strings xs \<longrightarrow> all_strings (take 6 xs)))
   \<and> ((\<forall>ys. get_prop (JObj raw) ''aiSlopSignals'' \<noteq> JArr ys) \<longrightarrow>
      get_prop (JObj (sanitizeResult raw)) ''aiSlopSignals'' = JArr [])"
proof -
  have strs: "all_strings ys \<Longrightarrow> all_strings (take n ys)" for ys n
  proof (induction ys arbitrary: n rule: all_strings.induct)
    case (2 s xs)
    then show ?case by (cases n) simp_all
  qed simp_all
  have other: "sanitize_signals x = JArr []" if "\<forall>ys. x \<noteq> JArr ys" for x
    using that by (cases x) simp_all
  show ?thesis
    unfolding sanitizeResult_signals
    by (auto simp: strs other simp del: get_prop.simps)
qed

theorem C2_aiSlopSignals_witness:
  "get_prop (JObj [(''aiSlopSignals'',
       JArr [JStr ''a'', JStr ''b'', JStr ''c'', JStr ''d'', JStr ''e'', JStr ''f'', JStr ''g''])])
     ''aiSlopSignals''
     = JArr [JStr ''a'', JStr ''b'', JStr ''c'', JStr ''d'', JStr ''e'', JStr ''f'', JStr ''g'']
   \<and> all_strings [JStr ''a'', JStr ''b'', JStr ''c'', JStr ''d'', JStr ''e'', JStr ''f'', JStr ''g'']
   \<and> get_prop (JObj (sanitizeResult [(''aiSlopSignals'',
       JArr [JStr ''a'', JStr ''b'', JStr ''c'', JStr ''d'', JStr ''e'', JStr ''f'', JStr ''g''])]))
     ''aiSlopSignals''
     = JArr [JStr ''a'', JStr ''b'', JStr ''c'', JStr ''d'', JStr ''e'', JStr ''f'']
   \<and> (\<forall>ys. get_prop (JObj [(''aiSlopSignals'', JStr ''none'')]) ''aiSlopSignals'' \<noteq> JArr ys)
   \<and> get_prop (JObj (sanitizeResult [(''aiSlopSignals'', JStr ''none'')])) ''aiSlopSignals''
     = JArr []"
  using C2_aiSlopSignals [of "[(''aiSlopSignals'',
       JArr [JStr ''a'', JStr ''b'', JStr ''c'', JStr ''d'', JStr ''e'', JStr ''f'', JStr ''g''])]"
      "[JStr ''a'', JStr ''b'', JStr ''c'', JStr ''d'', JStr ''e'', JStr ''f'', JStr ''g'']"]
    C2_aiSlopSignals [of "[(''aiSlopSignals'', JStr ''none'')]" "[]"]
  by simp

text \<open>
  C2, as the specification words it, fails: the entries are not coerced to strings. A list
  holding the number 1 comes out as it went in, and is not a list of strings.
\<close>

theorem C2_aiSlopSignals_counterexample:
  "get_prop (JObj (sanitizeResult [(''aiSlopSignals'', JArr [JNum (Finite 1)])])) ''aiSlopSignals''
     = JArr [JNum (Finite 1)]
   \<and> \<not> all_strings [JNum (Finite 1)]"
  by (simp add: sanitizeResult_def)

text \<open>
  C8. The sanitizer is idempotent: sanitizing a sanitized result changes nothing, neither a
  value nor the order of the properties.
\<close>

theorem C8_sanitizeResult_idempotent:
  "sanitizeResult (sanitizeResult raw) = sanitizeResult raw"
proof -
  let ?r = "sanitizeResult raw"
  let ?A = "sanitize_scores (get_prop (JObj raw) ''scores'')"
  let ?B = "JBool (Boolean (get_prop (JObj raw) ''aiSlopDetected''))"
  let ?C = "sanitize_signals (get_prop (JObj raw) ''aiSlopSignals'')"
  have A: "map_of ?r ''scores'' = Some ?A"
    by (rule get_prop_map_of [OF sanitizeResult_scores]) (simp add: sanitize_scores_def)
  have B: "map_of ?r ''aiSlopDetected'' = Some ?B"
    by (rule get_prop_map_of [OF sanitizeResult_detected]) simp
  have "?C \<noteq> JUndefined"
    by (cases "get_prop (JObj raw) ''aiSlopSignals''") simp_all
  with sanitizeResult_signals have C: "map_of ?r ''aiSlopSignals'' = Some ?C"
    by (rule get_prop_map_of)
  have "sanitizeResult ?r = set_prop (set_prop (set_prop ?r ''scores'' ?A) ''aiSlopDetected'' ?B)
      ''aiSlopSignals'' ?C"
    unfolding sanitizeResult_def [of ?r]
    unfolding sanitizeResult_scores sanitizeResult_detected sanitizeResult_signals
    by (simp add: sanitize_scores_idem sanitize_signals_idem)
  also have "\<dots> = ?r"
    by (simp only: set_prop_same [OF A] set_prop_same [OF B] set_prop_same [OF C])
  finally show ?thesis .
qed

section \<open>Properties of the extraction\<close>

lemma greedy_to_brace_None: "greedy_to_brace cs = None \<longleftrightarrow> CHR ''}'' \<notin> set cs"
  by (induction cs) (auto split: option.splits)

lemma greedy_to_brace_last:
  "CHR ''}'' \<notin> set post \<Longrightarrow> greedy_to_brace (mid @ CHR ''}'' # post) = Some (mid @ [CHR ''}''])"
  by (induction mid) (simp_all add: greedy_to_brace_None [THEN iffD2])

lemma regex_match_skip: "CHR ''{'' \<notin> set pre \<Longrightarrow> regex_match (pre @ s) = regex_match s"
  by (induction pre) auto

lemma regex_match_first_last:
  "CHR ''{'' \<notin> set pre \<Longrightarrow> CHR ''}'' \<notin> set post \<Longrightarrow>
     regex_match (pre @ CHR ''{'' # mid @ CHR ''}'' # post) = Some (CHR ''{'' # mid @ [CHR ''}''])"
  by (simp add: regex_match_skip greedy_to_brace_last)

lemma regex_match_None_imp:
  "regex_match s = None \<Longrightarrow> s = pre @ CHR ''{'' # rest \<Longrightarrow> CHR ''}'' \<notin> set rest"
proof (induction s arbitrary: pre)
  case Nil
  then show ?case by simp
next
  case (Cons c cs)
  show ?case
  proof (cases pre)
    case Nil
    with Cons.prems show ?thesis
      by (auto simp: greedy_to_brace_None split: option.splits)
  next
    case (Cons p pre')
    with Cons.prems have "regex_match cs = None" "cs = pre' @ CHR ''{'' # rest"
      by (auto split: if_splits option.splits)
    then show ?thesis by (rule Cons.IH)
  qed
qed

lemma regex_match_Some_close: "regex_match s = Some m \<Longrightarrow> CHR ''}'' \<in> set s"
proof (induction s)
  case Nil
  then show ?case by simp
next
  case (Cons c cs)
  show ?case
  proof (cases "greedy_to_brace cs")
    case None
    with Cons.prems have "regex_match cs = Some m" by (simp split: if_splits)
    then show ?thesis using Cons.IH by simp
  next
    case (Some a)
    then have "CHR ''}'' \<in> set cs" using greedy_to_brace_None [of cs] by simp
    then show ?thesis by simp
  qed
qed

lemma regex_match_exists:
  assumes "s = pre @ CHR ''{'' # mid @ CHR ''}'' # post"
  shows "\<exists>pre' mid' post'. s = pre' @ CHR ''{'' # mid' @ CHR ''}'' # post'
     \<and> CHR ''{'' \<notin> set pre' \<and> CHR ''}'' \<notin> set post'"
proof -
  have "CHR ''{'' \<in> set s" using assms by simp
  then obtain pre' rest where s: "s = pre' @ CHR ''{'' # rest" and pre': "CHR ''{'' \<notin> set pre'"
    by (meson split_list_first)
  have "regex_match s \<noteq> None"
    using assms regex_match_None_imp [of s pre "mid @ CHR ''}'' # post"] by auto
  then have "regex_match (CHR ''{'' # rest) \<noteq> None"
    using s pre' by (simp add: regex_match_skip)
  then have "CHR ''}'' \<in> set rest"
    using regex_match_Some_close [of rest] greedy_to_brace_None [of rest]
    by (auto split: option.splits)
  then obtain mid' post' where "rest = mid' @ CHR ''}'' # post'" "CHR ''}'' \<notin> set post'"
    by (meson split_list_last)
  with s pre' show ?thesis by blast
qed

lemma regex_match_Some_iff:
  "regex_match s = Some m \<longleftrightarrow>
     (\<exists>pre mid post. s = pre @ m @ post \<and> m = CHR ''{'' # mid @ [CHR ''}'']
        \<and> CHR ''{'' \<notin> set pre \<and> CHR ''}'' \<notin> set post)"
proof
  assume m: "regex_match s = Some m"
  then have "\<exists>pre rest. s = pre @ CHR ''{'' # rest \<and> CHR ''}'' \<in> set rest"
  proof (induction s)
    case Nil
    then show ?case by simp
  next
    case (Cons c cs)
    show ?case
    proof (cases "c = CHR ''{'' \<and> greedy_to_brace cs \<noteq> None")
      case True
      then have "c # cs = [] @ CHR ''{'' # cs \<and> CHR ''}'' \<in> set cs"
        by (simp add: greedy_to_brace_None)
      then show ?thesis by blast
    next
      case False
      with Cons.prems have "regex_match cs = Some m" by (auto split: if_splits option.splits)
      then obtain pre rest where "cs = pre @ CHR ''{'' # rest" "CHR ''}'' \<in> set rest"
        using Cons.IH by blast
      then have "c # cs = (c # pre) @ CHR ''{'' # rest \<and> CHR ''}'' \<in> set rest" by simp
      then show ?thesis by blast
    qed
  qed
  then obtain pre rest where "s = pre @ CHR ''{'' # rest" "CHR ''}'' \<in> set rest" by blast
  then obtain pre mid post where "s = pre @ CHR ''{'' # mid @ CHR ''}'' # post"
    by (metis split_list)
  then obtain pre' mid' post' where d: "s = pre' @ CHR ''{'' # mid' @ CHR ''}'' # post'"
     "CHR ''{'' \<notin> set pre'" "CHR ''}'' \<notin> set post'"
    using regex_match_exists by blast
  then have "regex_match s = Some (CHR ''{'' # mid' @ [CHR ''}''])"
    by (simp add: regex_match_first_last)
  with m have "m = CHR ''{'' # mid' @ [CHR ''}'']" by simp
  with d show "\<exists>pre mid post. s = pre @ m @ post \<and> m = CHR ''{'' # mid @ [CHR ''}'']
        \<and> CHR ''{'' \<notin> set pre \<and> CHR ''}'' \<notin> set post"
    by (intro exI [of _ pre'] exI [of _ mid'] exI [of _ post']) simp
next
  assume "\<exists>pre mid post. s = pre @ m @ post \<and> m = CHR ''{'' # mid @ [CHR ''}'']
        \<and> CHR ''{'' \<notin> set pre \<and> CHR ''}'' \<notin> set post"
  then obtain pre mid post where "s = pre @ CHR ''{'' # mid @ CHR ''}'' # post"
    "m = CHR ''{'' # mid @ [CHR ''}'']" "CHR ''{'' \<notin> set pre" "CHR ''}'' \<notin> set post"
    by auto
  then show "regex_match s = Some m" by (simp add: regex_match_first_last)
qed

lemma regex_match_None_iff:
  "regex_match s = None \<longleftrightarrow>
     \<not> (\<exists>pre mid post. s = pre @ CHR ''{'' # mid @ CHR ''}'' # post)"
proof
  assume n: "regex_match s = None"
  show "\<not> (\<exists>pre mid post. s = pre @ CHR ''{'' # mid @ CHR ''}'' # post)"
  proof
    assume "\<exists>pre mid post. s = pre @ CHR ''{'' # mid @ CHR ''}'' # post"
    then obtain pre mid post where "s = pre @ CHR ''{'' # mid @ CHR ''}'' # post" by blast
    from regex_match_None_imp [OF n this] show False by simp
  qed
next
  assume a: "\<not> (\<exists>pre mid post. s = pre @ CHR ''{'' # mid @ CHR ''}'' # post)"
  show "regex_match s = None"
  proof (rule ccontr)
    assume "regex_match s \<noteq> None"
    then obtain m where "regex_match s = Some m" by auto
    then obtain pre mid post where "s = pre @ m @ post" "m = CHR ''{'' # mid @ [CHR ''}'']"
      unfolding regex_match_Some_iff by blast
    then have "s = pre @ CHR ''{'' # mid @ CHR ''}'' # post" by simp
    with a show False by blast
  qed
qed

section \<open>Properties of the capture\<close>

lemmas example_defs =
  bind_io_def finally_io_def await_def await_value_def return_io_def throw_io_def lift_io_def
  capture_body_def capture_cleanup_def captureScreenshot_def
  example_world_def example_URL_def example_parse_def example_capture_def
  no_failure_def failure_at_def
  nullish_def opt_prop_def with_scheme_def response_ok_def model_text_def
  example_request_def example_key_def example_completion_def
  analyze_def analyze_try_def error_response_def

text \<open>
  After a launch and a page creation that succeed, and when the two closing calls succeed,
  both are made, whatever the body of the \<^verbatim>\<open>try\<close> did.
\<close>

lemma captureScreenshot_closes_both:
  assumes "fails w t Launch = None" and "fails w (t @ [Launch]) NewPage = None"
    and "capture_body w targetUrl (t @ [Launch, NewPage]) = (r, t1)"
    and "fails w t1 PageClose = None" and "fails w (t1 @ [PageClose]) BrowserClose = None"
  shows "captureScreenshot w targetUrl t = (r, t1 @ [PageClose, BrowserClose])"
  using assms
  by (simp add: captureScreenshot_def capture_cleanup_def bind_io_def finally_io_def await_def)

text \<open>A page creation that fails leaves the function at once.\<close>

lemma captureScreenshot_newPage_fails:
  assumes "fails w t Launch = None" and "fails w (t @ [Launch]) NewPage = Some x"
  shows "captureScreenshot w targetUrl t = (Inl x, t @ [Launch, NewPage])"
  using assms by (simp add: captureScreenshot_def bind_io_def await_def)

text \<open>
  C5. The claim is that the page and the browser are closed on every path out of
  \<^verbatim>\<open>captureScreenshot\<close>, a failure of the page's creation included. The code run where
  \<^verbatim>\<open>browser.newPage\<close> rejects after a successful launch: the error leaves the function
  after the two calls \<^verbatim>\<open>launch\<close> and \<^verbatim>\<open>newPage\<close>, and \<^verbatim>\<open>browser.close\<close> is never
  called. And where \<^verbatim>\<open>page.close\<close> rejects inside \<^verbatim>\<open>finally\<close>, \<^verbatim>\<open>browser.close\<close> is
  not called either.
\<close>

theorem C5_browser_left_open:
  "captureScreenshot
     (example_world (failure_at NewPage (Error ''browser.newPage: Target closed'')) 1000 200 [] JNull)
     ''https://example.com/'' []
     = (Inl (Error ''browser.newPage: Target closed''), [Launch, NewPage])
   \<and> BrowserClose \<notin> set [Launch, NewPage]
   \<and> captureScreenshot
     (example_world (failure_at PageClose (Error ''page.close: Connection closed'')) 0 200 [] JNull)
     ''https://example.com/'' []
     = (Inl (Error ''page.close: Connection closed''),
        [Launch, NewPage, Goto ''https://example.com/'', WaitForTimeout 600, EvalScrollHeight,
         ScrollTo 0, WaitForTimeout 800, Screenshot, PageClose])"
  by (simp add: example_defs)

section \<open>Properties of the endpoint\<close>

lemma analyze_valid:
  assumes "\<not> nullish req_body" and "get_prop req_body ''url'' = JStr url" and "url \<noteq> []"
    and "URL_href w (with_scheme url) = Some href" and "\<not> key_missing key"
  shows "analyze key w req_body =
     (case analyze_try w href [] of
        (Inr r, t) \<Rightarrow> (Inr r, t)
      | (Inl error, t) \<Rightarrow> (Inr (error_response 500 (catch_message error)), t))"
  using assms by (simp add: analyze_def)



lemma analyze_try_parse:
  assumes "captureScreenshot w href [] = (Inr shot, t1)"
    and "await_value w (Fetch href (base64 w shot)) (response_status w) t1 = (Inr st, t2)"
    and "response_ok st"
    and "await_value w ResponseJson (response_json w) t2 = (Inr data, t3)"
  shows "analyze_try w href [] =
     (case model_text data of
        Inl e \<Rightarrow> (Inl e, t3)
      | Inr text \<Rightarrow>
          (case safeParseJson (JSON_parse w) text of
             Inl e \<Rightarrow> (Inl e, t3)
           | Inr analysis \<Rightarrow>
               (Inr \<lparr>status = 200,
                     json = JObj [(''url'', JStr href),
                                  (''screenshotBase64'',
                                     JStr (''data:image/png;base64,'' @ base64 w shot)),
                                  (''analysis'', JObj analysis)]\<rparr>, t3)))"
  using assms
  by (simp add: analyze_try_def bind_io_def return_io_def lift_io_def split: sum.splits)

lemma analyze_try_shape:
  assumes "analyze_try w href t0 = (Inr r, t)"
  shows "\<exists>shot analysis. r = \<lparr>status = 200,
     json = JObj [(''url'', JStr href), (''screenshotBase64'', JStr shot),
                  (''analysis'', JObj analysis)]\<rparr>"
  using assms
  by (auto simp: analyze_try_def bind_io_def return_io_def lift_io_def throw_io_def
      simp del: string_of_nat.simps split: prod.splits sum.splits if_splits)

text \<open>
  C3. For a text \<open>content\<close>, the match of \<^verbatim>\<open>/\{[\s\S]*\}/\<close> is the part of the text
  from its first opening brace to its last closing brace, and there is no match exactly when
  no closing brace follows an opening one. \<^verbatim>\<open>safeParseJson\<close> throws
  \<^verbatim>\<open>Error('Model did not return JSON')\<close> when there is no match, throws what
  \<^verbatim>\<open>JSON.parse\<close> throws on the match when that fails, and otherwise returns the parsed
  object sanitized. When the model's text has no match, the endpoint answers 500 with the
  body \<^verbatim>\<open>{ error: 'Model did not return JSON' }\<close>.
\<close>

theorem C3_safeParseJson:
  "(regex_match content = Some m \<longleftrightarrow>
      (\<exists>pre mid post. content = pre @ m @ post \<and> m = CHR ''{'' # mid @ [CHR ''}'']
         \<and> CHR ''{'' \<notin> set pre \<and> CHR ''}'' \<notin> set post))
   \<and> (regex_match content = None \<longleftrightarrow>
      \<not> (\<exists>pre mid post. content = pre @ CHR ''{'' # mid @ CHR ''}'' # post))
   \<and> (regex_match content = None \<longrightarrow>
      safeParseJson parse (JStr content) = Inl (Error ''Model did not return JSON''))
   \<and> (regex_match content = Some m \<and> parse m = Inl e \<longrightarrow>
      safeParseJson parse (JStr content) = Inl e)
   \<and> (regex_match content = Some m \<and> parse m = Inr parsed \<longrightarrow>
      safeParseJson parse (JStr content) = Inr (sanitizeResult parsed))
   \<and> (\<not> nullish req_body \<and> get_prop req_body ''url'' = JStr url \<and> url \<noteq> []
      \<and> URL_href w (with_scheme url) = Some href \<and> \<not> key_missing key
      \<and> captureScreenshot w href [] = (Inr shot, t1)
      \<and> await_value w (Fetch href (base64 w shot)) (response_status w) t1 = (Inr st, t2)
      \<and> response_ok st
      \<and> await_value w ResponseJson (response_json w) t2 = (Inr data, t3)
      \<and> model_text data = Inr (JStr content)
      \<and> regex_match content = None \<longrightarrow>
      analyze key w req_body =
        (Inr \<lparr>status = 500, json = JObj [(''error'', JStr ''Model did not return JSON'')]\<rparr>, t3))"
proof -
  have handler: "analyze key w req_body =
      (Inr \<lparr>status = 500, json = JObj [(''error'', JStr ''Model did not return JSON'')]\<rparr>, t3)"
    if "\<not> nullish req_body" "get_prop req_body ''url'' = JStr url" "url \<noteq> []"
      "URL_href w (with_scheme url) = Some href" "\<not> key_missing key"
      "captureScreenshot w href [] = (Inr shot, t1)"
      "await_value w (Fetch href (base64 w shot)) (response_status w) t1 = (Inr st, t2)"
      "response_ok st"
      "await_value w ResponseJson (response_json w) t2 = (Inr data, t3)"
      "model_text data = Inr (JStr content)" "regex_match content = None"
  proof -
    have "analyze_try w href [] = (Inl (Error ''Model did not return JSON''), t3)"
      using that(10,11) by (simp add: analyze_try_parse [OF that(6-9)])
    then show ?thesis
      by (simp add: analyze_valid [OF that(1-5)] error_response_def)
  qed
  have none: "safeParseJson parse (JStr content) = Inl (Error ''Model did not return JSON'')"
    if "regex_match content = None"
    using that by simp
  have bad: "safeParseJson parse (JStr content) = Inl e"
    if "regex_match content = Some m" "parse m = Inl e"
    using that by simp
  have good: "safeParseJson parse (JStr content) = Inr (sanitizeResult parsed)"
    if "regex_match content = Some m" "parse m = Inr parsed"
    using that by simp
  show ?thesis
    using regex_match_Some_iff [of content m] regex_match_None_iff [of content]
      none bad good handler
    by blast
qed

theorem C3_safeParseJson_witness:
  "regex_match ''Sure: {} ok'' = Some ''{}'' \<and> example_parse ''{}'' = Inr []
   \<and> safeParseJson example_parse (JStr ''Sure: {} ok'') = Inr (sanitizeResult [])
   \<and> regex_match ''so {nope} it is'' = Some ''{nope}''
   \<and> example_parse ''{nope}'' = Inl (Error ''Unexpected token n in JSON'')
   \<and> safeParseJson example_parse (JStr ''so {nope} it is'')
       = Inl (Error ''Unexpected token n in JSON'')
   \<and> regex_match ''I cannot see the image.'' = None
   \<and> safeParseJson example_parse (JStr ''I cannot see the image.'')
       = Inl (Error ''Model did not return JSON'')
   \<and> model_text (example_completion ''I cannot see the image.'')
       = Inr (JStr ''I cannot see the image.'')
   \<and> analyze example_key
        (example_world no_failure 1000 200 [] (example_completion ''I cannot see the image.''))
        (example_request ''example.com'')
       =
         (Inr \<lparr>status = 500, json = JObj [(''error'', JStr ''Model did not return JSON'')]\<rparr>,
          example_capture @ [Fetch ''https://example.com/'' ''UE5H'', ResponseJson])"
  using
    C3_safeParseJson [where content = "''Sure: {} ok''" and m = "''{}''"
      and parse = example_parse and parsed = "[]"]
    C3_safeParseJson [where content = "''so {nope} it is''" and m = "''{nope}''"
      and parse = example_parse and e = "Error ''Unexpected token n in JSON''"]
    C3_safeParseJson [where content = "''I cannot see the image.''"
      and parse = example_parse and req_body = "example_request ''example.com''"
      and url = "''example.com''" and href = "''https://example.com/''"
      and key = example_key
      and w = "example_world no_failure 1000 200 []
         (example_completion ''I cannot see the image.'')"
      and shot = "''PNG''" and ?t1.0 = example_capture and st = 200
      and ?t2.0 = "example_capture @ [Fetch ''https://example.com/'' ''UE5H'']"
      and data = "example_completion ''I cannot see the image.''"
      and ?t3.0 = "example_capture @ [Fetch ''https://example.com/'' ''UE5H'', ResponseJson]"]
  by (simp add: example_defs)

text \<open>
  C4. For a request whose \<^verbatim>\<open>url\<close> is a non-empty string that the URL constructor
  accepts, a missing credential (unset or empty) makes the endpoint answer 500 with
  \<^verbatim>\<open>{ error: 'OPENROUTER_API_KEY is missing in environment' }\<close> without causing any
  event: the browser is not launched. The check comes after the URL's validation: with a
  URL that the constructor rejects the answer is 400 \<^verbatim>\<open>Invalid URL\<close>, credential or not.
\<close>

theorem C4_missing_key:
  "(key_missing key \<longleftrightarrow> key = None \<or> key = Some [])
   \<and> (\<not> nullish req_body \<and> get_prop req_body ''url'' = JStr url \<and> url \<noteq> []
      \<and> URL_href w (with_scheme url) = Some href \<and> key_missing key \<longrightarrow>
      analyze key w req_body =
        (Inr \<lparr>status = 500, json = JObj [(''error'', JStr ''OPENROUTER_API_KEY is missing in environment'')]\<rparr>, [])
      \<and> Launch \<notin> set (snd (analyze key w req_body)))
   \<and> (\<not> nullish req_body \<and> get_prop req_body ''url'' = JStr url \<and> url \<noteq> []
      \<and> URL_href w (with_scheme url) = None \<and> key_missing key \<longrightarrow>
      analyze key w req_body =
        (Inr \<lparr>status = 400, json = JObj [(''error'', JStr ''Invalid URL'')]\<rparr>, []))"
proof -
  have "key_missing key \<longleftrightarrow> key = None \<or> key = Some []"
    by (cases key) simp_all
  then show ?thesis
    by (simp add: analyze_def error_response_def)
qed

theorem C4_missing_key_witness:
  "\<not> nullish (example_request ''example.com'')
   \<and> get_prop (example_request ''example.com'') ''url'' = JStr ''example.com''
   \<and> URL_href (example_world no_failure 1000 200 [] JNull) (with_scheme ''example.com'')
       = Some ''https://example.com/''
   \<and> key_missing None \<and> key_missing (Some [])
   \<and> analyze None (example_world no_failure 1000 200 [] JNull) (example_request ''example.com'')
       =
         (Inr \<lparr>status = 500, json = JObj [(''error'', JStr ''OPENROUTER_API_KEY is missing in environment'')]\<rparr>, [])
   \<and> Launch \<notin> set (snd (analyze None (example_world no_failure 1000 200 [] JNull)
        (example_request ''example.com'')))
   \<and> URL_href (example_world no_failure 1000 200 [] JNull) (with_scheme ''not a url'') = None
   \<and> analyze (Some []) (example_world no_failure 1000 200 [] JNull)
        (example_request ''not a url'')
       = (Inr \<lparr>status = 400, json = JObj [(''error'', JStr ''Invalid URL'')]\<rparr>, [])"
  using
    C4_missing_key [where req_body = "example_request ''example.com''"
      and url = "''example.com''" and href = "''https://example.com/''" and key = None
      and w = "example_world no_failure 1000 200 [] JNull"]
    C4_missing_key [where req_body = "example_request ''not a url''"
      and url = "''not a url''" and key = "Some []"
      and w = "example_world no_failure 1000 200 [] JNull"]
  by (simp add: example_defs)

text \<open>
  C6. For a non-empty string \<open>url\<close>, the text given to the URL constructor is \<open>url\<close>
  itself when it starts with \<^verbatim>\<open>http\<close> and \<^verbatim>\<open>https://\<close> followed by \<open>url\<close> otherwise:
  \<^verbatim>\<open>example.com\<close> becomes \<^verbatim>\<open>https://example.com\<close> and \<^verbatim>\<open>http://x.com\<close> stays as it
  is. When the constructor throws, the endpoint answers 400 with
  \<^verbatim>\<open>{ error: 'Invalid URL' }\<close>; when it succeeds, the rest of the handler runs on the
  constructor's serialization, which is the \<^verbatim>\<open>url\<close> of every 200 response.
\<close>

theorem C6_normalizer:
  "(take 4 url = ''http'' \<longrightarrow> with_scheme url = url)
   \<and> (take 4 url \<noteq> ''http'' \<longrightarrow> with_scheme url = ''https://'' @ url)
   \<and> with_scheme ''example.com'' = ''https://example.com''
   \<and> with_scheme ''http://x.com'' = ''http://x.com''
   \<and> (\<not> nullish req_body \<and> get_prop req_body ''url'' = JStr url \<and> url \<noteq> []
      \<and> URL_href w (with_scheme url) = None \<longrightarrow>
      analyze key w req_body =
        (Inr \<lparr>status = 400, json = JObj [(''error'', JStr ''Invalid URL'')]\<rparr>, []))
   \<and> (\<not> nullish req_body \<and> get_prop req_body ''url'' = JStr url \<and> url \<noteq> []
      \<and> URL_href w (with_scheme url) = Some href \<and> \<not> key_missing key \<longrightarrow>
      analyze key w req_body =
        (case analyze_try w href [] of
           (Inr r, t) \<Rightarrow> (Inr r, t)
         | (Inl error, t) \<Rightarrow>
           (Inr \<lparr>status = 500, json = JObj [(''error'', JStr (catch_message error))]\<rparr>, t)))
   \<and> (\<not> nullish req_body \<and> get_prop req_body ''url'' = JStr url \<and> url \<noteq> []
      \<and> URL_href w (with_scheme url) = Some href
      \<and> analyze key w req_body = (Inr r, t) \<and> status r = 200 \<longrightarrow>
      get_prop (json r) ''url'' = JStr href)"
proof -
  have ok: "get_prop (json r) ''url'' = JStr href"
    if "\<not> nullish req_body" "get_prop req_body ''url'' = JStr url" "url \<noteq> []"
      "URL_href w (with_scheme url) = Some href"
      "analyze key w req_body = (Inr r, t)" "status r = 200"
  proof (cases "key_missing key")
    case True
    with that show ?thesis by (auto simp: analyze_def error_response_def)
  next
    case False
    obtain res t' where res: "analyze_try w href [] = (res, t')" by (cases "analyze_try w href []")
    show ?thesis
    proof (cases res)
      case (Inl e)
      with that res False show ?thesis
        by (auto simp: analyze_valid [OF that(1-4) False] error_response_def)
    next
      case (Inr r')
      with that res False have "r' = r"
        by (simp add: analyze_valid [OF that(1-4) False])
      with res Inr analyze_try_shape [of w href "[]" r t'] show ?thesis by auto
    qed
  qed
  have inv: "analyze key w req_body =
    (Inr \<lparr>status = 400, json = JObj [(''error'', JStr ''Invalid URL'')]\<rparr>, [])"
    if "\<not> nullish req_body" "get_prop req_body ''url'' = JStr url" "url \<noteq> []"
      "URL_href w (with_scheme url) = None"
    using that by (simp add: analyze_def error_response_def)
  have ex: "with_scheme ''example.com'' = ''https://example.com''"
    "with_scheme ''http://x.com'' = ''http://x.com''"
    by (simp_all add: with_scheme_def)
  have pre: "take 4 url = ''http'' \<longrightarrow> with_scheme url = url"
    "take 4 url \<noteq> ''http'' \<longrightarrow> with_scheme url = ''https://'' @ url"
    by (simp_all add: with_scheme_def)
  show ?thesis
    using pre ex inv ok analyze_valid [of req_body url w href key, unfolded error_response_def]
    by blast
qed

theorem C6_normalizer_witness:
  "take 4 ''example.com'' \<noteq> ''http'' \<and> take 4 ''http://x.com'' = ''http''
   \<and> URL_href (example_world no_failure 1000 200 [] (example_completion ''{}''))
        (with_scheme ''not a url'') = None
   \<and> analyze example_key (example_world no_failure 1000 200 [] (example_completion ''{}''))
        (example_request ''not a url'')
       = (Inr \<lparr>status = 400, json = JObj [(''error'', JStr ''Invalid URL'')]\<rparr>, [])
   \<and> URL_href (example_world no_failure 1000 200 [] (example_completion ''{}''))
        (with_scheme ''example.com'') = Some ''https://example.com/''
   \<and> analyze example_key (example_world no_failure 1000 200 [] (example_completion ''{}''))
        (example_request ''example.com'')
       = (Inr \<lparr>status = 200,
               json = JObj [(''url'', JStr ''https://example.com/''),
                            (''screenshotBase64'', JStr ''data:image/png;base64,UE5H''),
                            (''analysis'', JObj (sanitizeResult []))]\<rparr>,
          example_capture @ [Fetch ''https://example.com/'' ''UE5H'', ResponseJson])
   \<and> URL_href (example_world no_failure 0 200 [] (example_completion ''{}''))
        (with_scheme ''http://x.com'') = Some ''http://x.com/''
   \<and> fst (analyze example_key (example_world no_failure 0 200 [] (example_completion ''{}''))
        (example_request ''http://x.com''))
       = Inr \<lparr>status = 200,
               json = JObj [(''url'', JStr ''http://x.com/''),
                            (''screenshotBase64'', JStr ''data:image/png;base64,UE5H''),
                            (''analysis'', JObj (sanitizeResult []))]\<rparr>"
  using
    C6_normalizer [where url = "''not a url''" and req_body = "example_request ''not a url''"
      and key = example_key
      and w = "example_world no_failure 1000 200 [] (example_completion ''{}'')"]
    C6_normalizer [where url = "''example.com''" and req_body = "example_request ''example.com''"
      and key = example_key and href = "''https://example.com/''"
      and w = "example_world no_failure 1000 200 [] (example_completion ''{}'')"
      and r = "\<lparr>status = 200,
               json = JObj [(''url'', JStr ''https://example.com/''),
                            (''screenshotBase64'', JStr ''data:image/png;base64,UE5H''),
                            (''analysis'', JObj (sanitizeResult []))]\<rparr>"
      and t = "example_capture @ [Fetch ''https://example.com/'' ''UE5H'', ResponseJson]"]
    C6_normalizer [where url = "''http://x.com''" and req_body = "example_request ''http://x.com''"
      and key = example_key and href = "''http://x.com/''"
      and w = "example_world no_failure 0 200 [] (example_completion ''{}'')"]
  by (simp add: example_defs)



text \<open>
  C9. For a request body whose \<^verbatim>\<open>url\<close> is missing, is not a string, or is the empty
  string, the endpoint answers 400 with \<^verbatim>\<open>{ error: 'url is required' }\<close> and causes no
  event, whatever the credential, the URL constructor and the world are.
\<close>

theorem C9_url_required:
  "\<not> nullish req_body \<and>
     (get_prop req_body ''url'' = JUndefined
      \<or> \<not> is_string (get_prop req_body ''url'')
      \<or> get_prop req_body ''url'' = JStr []) \<longrightarrow>
   analyze key w req_body =
     (Inr \<lparr>status = 400, json = JObj [(''error'', JStr ''url is required'')]\<rparr>, [])"
  by (auto simp: analyze_def error_response_def)

theorem C9_url_required_witness:
  "\<not> nullish (JObj []) \<and> get_prop (JObj []) ''url'' = JUndefined
   \<and> analyze example_key (example_world no_failure 1000 200 [] JNull) (JObj [])
       = (Inr \<lparr>status = 400, json = JObj [(''error'', JStr ''url is required'')]\<rparr>, [])
   \<and> \<not> is_string (get_prop (JObj [(''url'', JNum (Finite 42))]) ''url'')
   \<and> analyze example_key (example_world no_failure 1000 200 [] JNull)
        (JObj [(''url'', JNum (Finite 42))])
       = (Inr \<lparr>status = 400, json = JObj [(''error'', JStr ''url is required'')]\<rparr>, [])
   \<and> get_prop (example_request []) ''url'' = JStr []
   \<and> analyze None (example_world no_failure 1000 200 [] JNull) (example_request [])
       =
         (Inr \<lparr>status = 400, json = JObj [(''error'', JStr ''url is required'')]\<rparr>, [])"
  using
    C9_url_required [where req_body = "JObj []" and key = example_key
      and w = "example_world no_failure 1000 200 [] JNull"]
    C9_url_required [where req_body = "JObj [(''url'', JNum (Finite 42))]" and key = example_key
      and w = "example_world no_failure 1000 200 [] JNull"]
    C9_url_required [where req_body = "example_request []" and key = None
      and w = "example_world no_failure 1000 200 [] JNull"]
  by (simp add: example_defs)




end
